theory Spec2Isabelle
  imports Main
begin

section \<open>Strings, bytes and the built-ins the relay relies on\<close>

text \<open>
  A Python \<open>str\<close> is a sequence of Unicode code points, so it is modelled as a list of
  natural numbers; \<open>bytes\<close> are lists of 8-bit characters. \<open>ascii\<close> turns a literal of
  the theory into the \<open>str\<close> with the same characters.
\<close>

type_synonym str = "nat list"
type_synonym bytes = "char list"

definition ascii :: "string \<Rightarrow> str" where
  "ascii s = map of_char s"

text \<open>
  \<open>str.isspace\<close> for one code point: the 29 code points CPython treats as whitespace.
\<close>

definition py_isspace :: "nat \<Rightarrow> bool" where
  "py_isspace c =
     ((0x09 \<le> c \<and> c \<le> 0x0D) \<or> (0x1C \<le> c \<and> c \<le> 0x20) \<or> c = 0x85 \<or> c = 0xA0
      \<or> c = 0x1680 \<or> (0x2000 \<le> c \<and> c \<le> 0x200A) \<or> c = 0x2028 \<or> c = 0x2029
      \<or> c = 0x202F \<or> c = 0x205F \<or> c = 0x3000)"

text \<open>\<open>s.strip()\<close>: whitespace is removed from both ends.\<close>

definition strip :: "str \<Rightarrow> str" where
  "strip s = rev (dropWhile py_isspace (rev (dropWhile py_isspace s)))"

text \<open>
  \<open>s.upper()\<close> and \<open>s.lower()\<close>. The relay applies them to HTTP method names only, which
  are ASCII tokens, so the case mapping is the one of ASCII letters.
\<close>

definition py_upper :: "str \<Rightarrow> str" where
  "py_upper s = map (\<lambda>c. if 97 \<le> c \<and> c \<le> 122 then c - 32 else c) s"

definition py_lower :: "str \<Rightarrow> str" where
  "py_lower s = map (\<lambda>c. if 65 \<le> c \<and> c \<le> 90 then c + 32 else c) s"

text \<open>\<open>str(n)\<close> for an integer: its decimal numeral, with a minus sign when negative.\<close>

fun str_nat :: "nat \<Rightarrow> str" where
  "str_nat n = (if n < 10 then [48 + n] else str_nat (n div 10) @ [48 + n mod 10])"

declare str_nat.simps [simp del]

definition str_int :: "int \<Rightarrow> str" where
  "str_int i = (if i < 0 then 45 # str_nat (nat (- i)) else str_nat (nat i))"

text \<open>
  \<open>s.encode("utf-8")\<close>. A surrogate code point cannot be encoded: Python raises
  \<open>UnicodeEncodeError\<close>, the model returns \<open>None\<close>.
\<close>

definition utf8_char :: "nat \<Rightarrow> bytes option" where
  "utf8_char c =
     (if c < 0x80 then Some [char_of c]
      else if c < 0x800 then Some [char_of (0xC0 + c div 64), char_of (0x80 + c mod 64)]
      else if c < 0x10000 then
        (if 0xD800 \<le> c \<and> c \<le> 0xDFFF then None
         else Some [char_of (0xE0 + c div 4096), char_of (0x80 + c div 64 mod 64),
                    char_of (0x80 + c mod 64)])
      else if c < 0x110000 then
        Some [char_of (0xF0 + c div 262144), char_of (0x80 + c div 4096 mod 64),
              char_of (0x80 + c div 64 mod 64), char_of (0x80 + c mod 64)]
      else None)"

definition encode_utf8 :: "str \<Rightarrow> bytes option" where
  "encode_utf8 s = map_option concat (those (map utf8_char s))"

section \<open>JSON values and dictionaries\<close>

typedecl pyfloat

datatype json =
    JNull
  | JBool bool
  | JInt int
  | JFloat pyfloat
  | JStr str
  | JArr "json list"
  | JObj "(str \<times> json) list"

text \<open>
  A Python \<open>dict\<close> keeps its keys in insertion order: an association list. Storing under
  a key that is present replaces the value in place; a new key goes to the end.
\<close>

type_synonym pydict = "(str \<times> json) list"

fun dict_set :: "str \<Rightarrow> json \<Rightarrow> pydict \<Rightarrow> pydict" where
  "dict_set k v [] = [(k, v)]"
| "dict_set k v ((k', v') # d) =
     (if k' = k then (k, v) # d else (k', v') # dict_set k v d)"

text \<open>\<open>{**d, **e}\<close>: the items of \<open>e\<close> are stored into \<open>d\<close> one after the other.\<close>

definition dict_unpack :: "pydict \<Rightarrow> pydict \<Rightarrow> pydict" where
  "dict_unpack d e = fold (\<lambda>(k, v). dict_set k v) e d"

text \<open>\<open>d.get(k, default)\<close>.\<close>

definition dict_get :: "pydict \<Rightarrow> str \<Rightarrow> json \<Rightarrow> json" where
  "dict_get d k dflt = (case map_of d k of None \<Rightarrow> dflt | Some v \<Rightarrow> v)"

section \<open>The interpreter and library the relay runs on\<close>

text \<open>
  What the relay takes from the Python runtime and the \<open>json\<close> module, and what is not
  in the repository, is a parameter of the model:
  \<^item> \<open>int_max_str_digits\<close>: the interpreter's limit on the number of digits \<open>int()\<close>
    converts (\<open>sys.get_int_max_str_digits()\<close>, 4300 by default, 0 for no limit);
  \<^item> \<open>unicode_decimal\<close>: the decimal digit value of a code point beyond ASCII in the
    interpreter's Unicode database;
  \<^item> \<open>json_loads\<close>: \<open>json.loads\<close>, \<open>None\<close> where it raises;
  \<^item> \<open>json_dumps\<close> and \<open>json_dumps_indent2\<close>: \<open>json.dumps(v)\<close> and
    \<open>json.dumps(v, indent=2)\<close>;
  \<^item> \<open>float_repr\<close>: \<open>str(x)\<close> for a float.
\<close>

record runtime =
  int_max_str_digits :: nat
  unicode_decimal :: "nat \<Rightarrow> nat option"
  json_loads :: "str \<Rightarrow> json option"
  json_dumps :: "json \<Rightarrow> str"
  json_dumps_indent2 :: "json \<Rightarrow> str"
  float_repr :: "pyfloat \<Rightarrow> str"

text \<open>
  \<open>int(s)\<close> in base 10. Whitespace at both ends is skipped (the ASCII whitespace and the
  whitespace beyond ASCII, but not the separators 0x1C to 0x1F); an optional sign follows;
  then decimal digits, where a single underscore may stand between two digits. The digits
  are counted, the underscores are not, and a count above the interpreter's limit is a
  \<open>ValueError\<close> like every other malformed input: \<open>None\<close>.
\<close>

definition int_space :: "nat \<Rightarrow> bool" where
  "int_space c = ((0x09 \<le> c \<and> c \<le> 0x0D) \<or> c = 0x20 \<or> (0x80 \<le> c \<and> py_isspace c))"

definition digit_value :: "runtime \<Rightarrow> nat \<Rightarrow> nat option" where
  "digit_value rt c =
     (if 48 \<le> c \<and> c \<le> 57 then Some (c - 48)
      else if c < 0x80 then None
      else unicode_decimal rt c)"

fun int_digits :: "runtime \<Rightarrow> bool \<Rightarrow> nat \<Rightarrow> nat \<Rightarrow> str \<Rightarrow> (nat \<times> nat) option" where
  "int_digits rt after_digit acc cnt [] = (if after_digit then Some (acc, cnt) else None)"
| "int_digits rt after_digit acc cnt (c # cs) =
     (if c = 95 then (if after_digit then int_digits rt False acc cnt cs else None)
      else (case digit_value rt c of
              None \<Rightarrow> None
            | Some d \<Rightarrow> int_digits rt True (10 * acc + d) (Suc cnt) cs))"

definition py_int :: "runtime \<Rightarrow> str \<Rightarrow> int option" where
  "py_int rt s =
     (let t = rev (dropWhile int_space (rev (dropWhile int_space s)));
          negative = (case t of [] \<Rightarrow> False | c # _ \<Rightarrow> c = 45);
          body = (case t of [] \<Rightarrow> [] | c # cs \<Rightarrow> if c = 45 \<or> c = 43 then cs else t)
      in (case int_digits rt False 0 0 body of
            None \<Rightarrow> None
          | Some (v, cnt) \<Rightarrow>
              if 0 < int_max_str_digits rt \<and> int_max_str_digits rt < cnt then None
              else Some (if negative then - int v else int v)))"

text \<open>
  How the upstream client renders a \<open>detail\<close> value in its error message:
  \<open>json.dumps\<close> for a dict or a list, \<open>str\<close> for everything else.
\<close>

definition display_detail :: "runtime \<Rightarrow> json \<Rightarrow> str" where
  "display_detail rt error_detail =
     (case error_detail of
        JObj kv \<Rightarrow> json_dumps rt error_detail
      | JArr xs \<Rightarrow> json_dumps rt error_detail
      | JNull \<Rightarrow> ascii ''None''
      | JBool b \<Rightarrow> (if b then ascii ''True'' else ascii ''False'')
      | JInt i \<Rightarrow> str_int i
      | JFloat x \<Rightarrow> float_repr rt x
      | JStr s \<Rightarrow> s)"

section \<open>The HTTP client and the web framework\<close>

text \<open>
  A call on the \<open>httpx.AsyncClient\<close>: the name of the method invoked, its positional
  arguments, the \<open>headers\<close> and \<open>json\<close> keyword arguments and the timeout, in seconds,
  the client was created with. Each relay function returns, next to its result, the
  calls it attempted: every evaluation of \<open>getattr(client, name)(...)\<close> or
  \<open>client.stream(...)\<close>, also one that raises because the client has no method of that
  name. An empty list therefore means that nothing was sent upstream.
\<close>

record client_call =
  fn :: str
  args :: "str list"
  headers :: "(str \<times> str) list"
  json_kw :: "pydict option"
  timeout_s :: nat

text \<open>
  A response that was read in full: \<open>status_code\<close>, \<open>content\<close>, \<open>text\<close>, and what
  \<open>response.json()\<close> gives: the parsed value, or on the left the message of the
  exception it raises.
\<close>

record response =
  status_code :: int
  content :: bytes
  resp_text :: str
  resp_json :: "str + json"

text \<open>
  The call either raises (connection fault, timeout, no such client method; the \<open>str\<close>
  is \<open>str(e)\<close>) or returns a response.
\<close>

datatype outcome = Raised str | Returned response

text \<open>\<open>response.raise_for_status()\<close> raises unless \<open>response.is_success\<close>.\<close>

definition is_success :: "int \<Rightarrow> bool" where
  "is_success code = (200 \<le> code \<and> code \<le> 299)"

text \<open>
  A streamed response: the status, the chunks \<open>aiter_bytes\<close> yields, the fault that ends
  the body early if there is one (\<open>str(e)\<close>), and the \<open>text\<close> of the body once
  \<open>aread()\<close> has read it.
\<close>

record stream_response =
  stream_status :: int
  stream_chunks :: "bytes list"
  stream_fault :: "str option"
  stream_text :: str

datatype stream_outcome = StreamRaised str | StreamOpened stream_response

text \<open>
  What a handler can raise: FastAPI's \<open>HTTPException\<close> with \<open>status_code\<close> and \<open>detail\<close>,
  or the \<open>AttributeError\<close> of an attribute read on \<open>None\<close>, which no handler catches.
\<close>

datatype error = HTTPException int str | AttributeError

text \<open>
  The status of the HTTP response the framework sends: the status of an
  \<open>HTTPException\<close>, 500 for any other exception that leaves the handler, 200 for a
  returned value.
\<close>

definition response_status :: "error + 'a \<Rightarrow> int" where
  "response_status r =
     (case r of Inl (HTTPException code detail) \<Rightarrow> code | Inl AttributeError \<Rightarrow> 500 | Inr v \<Rightarrow> 200)"

section \<open>The relay\<close>

definition WREN_BASE_URL :: str where
  "WREN_BASE_URL = ascii ''https://cloud.getwren.ai/api/v1''"

record WrenRequest =
  project_id :: "str option"
  req_text :: "str option"
  additional_payload :: pydict

text \<open>The prefix of the detail of every internal error.\<close>

definition internal_error_prefix :: str where
  "internal_error_prefix = [0x5167, 0x90E8, 0x4F3A, 0x670D, 0x5668, 0x932F, 0x8AA4] @ ascii '': ''"

definition no_content_body :: json where
  "no_content_body =
     JObj [(ascii ''message'', JStr (ascii ''Operation successful, no content returned.''))]"

subsection \<open>The upstream client\<close>

definition async_wren_call ::
  "runtime \<Rightarrow> (client_call \<Rightarrow> outcome) \<Rightarrow> str \<Rightarrow> str \<Rightarrow> pydict option \<Rightarrow> str
     \<Rightarrow> (error + json) \<times> client_call list" where
  "async_wren_call rt client method full_url json_data wren_api_key =
     (let hdrs = [(ascii ''Authorization'', ascii ''Bearer '' @ wren_api_key),
                  (ascii ''Content-Type'', ascii ''application/json'')];
          call = \<lparr>fn = py_lower method, args = [full_url], headers = hdrs,
                  json_kw = (if py_upper method \<in> set [ascii ''POST'', ascii ''PUT'', ascii ''PATCH'']
                             then json_data else None),
                  timeout_s = 30\<rparr>
      in ((case client call of
             Raised e \<Rightarrow> Inl (HTTPException 500 (internal_error_prefix @ e))
           | Returned r \<Rightarrow>
               if is_success (status_code r) then
                 (if status_code r = 204 \<or> content r = [] then Inr no_content_body
                  else (case resp_json r of
                          Inl e \<Rightarrow> Inl (HTTPException 500 (internal_error_prefix @ e))
                        | Inr body \<Rightarrow> Inr body))
               else
                 (let error_content = resp_text r;
                      detail =
                        (case resp_json r of
                           Inr (JObj error_data) \<Rightarrow>
                             display_detail rt
                               (dict_get error_data (ascii ''detail'') (JStr error_content))
                         | _ \<Rightarrow> error_content)
                  in Inl (HTTPException (status_code r)
                       (ascii ''Wren API Request Failed (Method: '' @ method
                        @ ascii '', Status: '' @ str_int (status_code r) @ ascii ''): ''
                        @ detail)))),
          [call]))"

subsection \<open>Route 1: the key and project validator\<close>

definition key_invalid_detail :: str where
  "key_invalid_detail =
     ascii ''API Key '' @ [0x9A57, 0x8B49, 0x5931, 0x6557, 0x6216, 0x7121, 0x6548, 0x3002]"

definition access_denied_detail :: str where
  "access_denied_detail =
     ascii ''API Key '' @ [0x7121, 0x6B0A, 0x9650, 0x8A2A, 0x554F, 0x6B64]
     @ ascii '' Project ID'' @ [0x3002]"

definition project_not_found_detail :: str where
  "project_not_found_detail =
     ascii ''Project ID '' @ [0x4E0D, 0x5B58, 0x5728, 0x6216] @ ascii '' Key ''
     @ [0x7121, 0x6CD5, 0x5B58, 0x53D6, 0x3002]"

definition request_failed_prefix :: str where
  "request_failed_prefix = ascii ''Wren API '' @ [0x8ACB, 0x6C42, 0x5931, 0x6557] @ ascii '': ''"

definition validate_api_key_and_project ::
  "(client_call \<Rightarrow> outcome) \<Rightarrow> str \<Rightarrow> str \<Rightarrow> (error + json) \<times> client_call list" where
  "validate_api_key_and_project client wren_api_key pid =
     (let wren_full_url = WREN_BASE_URL @ ascii ''/projects/'' @ strip pid;
          hdrs = [(ascii ''Authorization'', ascii ''Bearer '' @ strip wren_api_key),
                  (ascii ''Content-Type'', ascii ''application/json'')];
          call = \<lparr>fn = ascii ''get'', args = [wren_full_url], headers = hdrs,
                  json_kw = None, timeout_s = 10\<rparr>
      in ((case client call of
             Raised e \<Rightarrow> Inl (HTTPException 500 (internal_error_prefix @ e))
           | Returned r \<Rightarrow>
               if is_success (status_code r) then
                 (case resp_json r of
                    Inl e \<Rightarrow> Inl (HTTPException 500 (internal_error_prefix @ e))
                  | Inr body \<Rightarrow> Inr body)
               else if status_code r = 401 then Inl (HTTPException 401 key_invalid_detail)
               else if status_code r = 403 then Inl (HTTPException 403 access_denied_detail)
               else if status_code r = 404 then Inl (HTTPException 404 project_not_found_detail)
               else Inl (HTTPException (status_code r) (request_failed_prefix @ resp_text r))),
          [call]))"

subsection \<open>Route 2: the unary relay\<close>

text \<open>The request object of the framework, of which the relay reads the method.\<close>

record Request =
  http_method :: str

text \<open>An optional string as the JSON value the client serialises: \<open>None\<close> is \<open>null\<close>.\<close>

definition json_of_text :: "str option \<Rightarrow> json" where
  "json_of_text t = (case t of None \<Rightarrow> JNull | Some s \<Rightarrow> JStr s)"

definition handle_wren_query ::
  "runtime \<Rightarrow> (client_call \<Rightarrow> outcome) \<Rightarrow> Request \<Rightarrow> str \<Rightarrow> WrenRequest option \<Rightarrow> str
     \<Rightarrow> (error + json) \<times> client_call list" where
  "handle_wren_query rt client request endpoint_path request_data wren_api_key =
     (case request_data of
        None \<Rightarrow> (Inl AttributeError, [])
      | Some rd \<Rightarrow>
          (case project_id rd of
             None \<Rightarrow>
               (Inl (HTTPException 400 (ascii ''project_id is required in the request body.'')), [])
           | Some pid \<Rightarrow>
               if pid = [] \<or> strip pid = [] then
                 (Inl (HTTPException 400 (ascii ''project_id is required in the request body.'')), [])
               else
                 (let wren_full_url = WREN_BASE_URL @ ascii ''/'' @ endpoint_path
                  in (case py_int rt (strip pid) of
                        None \<Rightarrow>
                          (Inl (HTTPException 400 (ascii ''project_id must be a valid integer.'')), [])
                      | Some project_id_int \<Rightarrow>
                          (let wren_payload =
                                 dict_set (ascii ''projectId'') (JInt project_id_int)
                                   (dict_unpack
                                      (dict_set (ascii ''text'') (json_of_text (req_text rd))
                                         (dict_set (ascii ''question'') (json_of_text (req_text rd)) []))
                                      (additional_payload rd))
                           in async_wren_call rt client (http_method request) wren_full_url
                                (Some wren_payload) (strip wren_api_key))))))"

subsection \<open>Route 3: the streaming relay\<close>

text \<open>
  How a generator ends: it returns (\<open>Closed\<close>), or an exception leaves it and the
  response breaks off (\<open>Aborted\<close>).
\<close>

datatype ending = Closed | Aborted

text \<open>
  \<open>yield f"event: error\ndata: {data}\n\n".encode("utf-8")\<close> as the last step of the
  generator, after the chunks \<open>sent\<close>.
\<close>

definition yield_error_event :: "bytes list \<Rightarrow> str \<Rightarrow> bytes list \<times> ending" where
  "yield_error_event sent data =
     (case encode_utf8 (ascii ''event: error'' @ [10] @ ascii ''data: '' @ data @ [10, 10]) of
        None \<Rightarrow> (sent, Aborted)
      | Some frame \<Rightarrow> (sent @ [frame], Closed))"

definition stream_wren_response ::
  "runtime \<Rightarrow> (client_call \<Rightarrow> stream_outcome) \<Rightarrow> str \<Rightarrow> pydict \<Rightarrow> str
     \<Rightarrow> (bytes list \<times> ending) \<times> client_call list" where
  \<open>stream_wren_response rt client wren_full_url wren_payload wren_api_key =
     (let hdrs = [(ascii ''Authorization'', ascii ''Bearer '' @ wren_api_key),
                  (ascii ''Content-Type'', ascii ''application/json'')];
          call = \<lparr>fn = ascii ''stream'', args = [ascii ''POST'', wren_full_url], headers = hdrs,
                  json_kw = Some wren_payload, timeout_s = 300\<rparr>
      in ((case client call of
             StreamRaised e \<Rightarrow> yield_error_event [] (ascii ''Internal Server Error: '' @ e)
           | StreamOpened r \<Rightarrow>
               if 400 \<le> stream_status r then
                 (case stream_fault r of
                    Some e \<Rightarrow> yield_error_event [] (ascii ''Internal Server Error: '' @ e)
                  | None \<Rightarrow>
                      yield_error_event []
                        (case json_loads rt (stream_text r) of
                           Some error_data \<Rightarrow>
                             json_dumps_indent2 rt (JObj [(ascii ''error'', error_data)])
                         | None \<Rightarrow> ascii ''{"error": "'' @ stream_text r @ ascii ''"}''))
               else
                 (case stream_fault r of
                    None \<Rightarrow> (stream_chunks r, Closed)
                  | Some e \<Rightarrow>
                      yield_error_event (stream_chunks r) (ascii ''Internal Server Error: '' @ e))),
          [call]))\<close>

text \<open>
  A generator that has not run yet: the call of \<open>stream_wren_response\<close> with its
  arguments. The \<open>StreamingResponse\<close> carries it as its body next to the media type
  and the status code, which is 200 unless given.
\<close>

datatype generator = Stream_wren_response str pydict str

record StreamingResponse =
  sr_status_code :: int
  media_type :: str
  body_iterator :: generator

definition handle_wren_streaming_query ::
  "runtime \<Rightarrow> str \<Rightarrow> WrenRequest option \<Rightarrow> str \<Rightarrow> error + StreamingResponse" where
  "handle_wren_streaming_query rt endpoint_path request_data wren_api_key =
     (case request_data of
        None \<Rightarrow> Inl AttributeError
      | Some rd \<Rightarrow>
          (case project_id rd of
             None \<Rightarrow> Inl (HTTPException 400 (ascii ''project_id is required in the request body.''))
           | Some pid \<Rightarrow>
               if pid = [] \<or> strip pid = [] then
                 Inl (HTTPException 400 (ascii ''project_id is required in the request body.''))
               else
                 (let wren_full_url = WREN_BASE_URL @ ascii ''/'' @ endpoint_path
                  in (case py_int rt (strip pid) of
                        None \<Rightarrow> Inl (HTTPException 400 (ascii ''project_id must be a valid integer.''))
                      | Some project_id_int \<Rightarrow>
                          (let wren_payload =
                                 dict_set (ascii ''projectId'') (JInt project_id_int)
                                   (dict_unpack
                                      (dict_set (ascii ''text'') (json_of_text (req_text rd))
                                         (dict_set (ascii ''question'') (json_of_text (req_text rd)) []))
                                      (additional_payload rd))
                           in Inr \<lparr>sr_status_code = 200,
                                   media_type = ascii ''text/event-stream'',
                                   body_iterator =
                                     Stream_wren_response wren_full_url wren_payload
                                       (strip wren_api_key)\<rparr>)))))"

text \<open>Running the body of a streaming response against the upstream.\<close>

definition run_body ::
  "runtime \<Rightarrow> (client_call \<Rightarrow> stream_outcome) \<Rightarrow> StreamingResponse
     \<Rightarrow> (bytes list \<times> ending) \<times> client_call list" where
  "run_body rt client sr =
     (case body_iterator sr of
        Stream_wren_response wren_full_url wren_payload wren_api_key \<Rightarrow>
          stream_wren_response rt client wren_full_url wren_payload wren_api_key)"

section \<open>Sample inputs\<close>

text \<open>
  A runtime for the examples. Its \<open>json\<close> functions answer as CPython's do on the
  values the examples use; \<open>int()\<close> reads ASCII digits, with the default digit limit.
\<close>

definition sample_loads :: "str \<Rightarrow> json option" where
  \<open>sample_loads = (\<lambda>s.
     if s = ascii ''{"detail":"boom"}'' then Some (JObj [(ascii ''detail'', JStr (ascii ''boom''))])
     else None)\<close>

definition sample_dumps :: "json \<Rightarrow> str" where
  \<open>sample_dumps = (\<lambda>v.
     if v = JObj [(ascii ''code'', JInt 7)] then ascii ''{"code": 7}'' else [])\<close>

definition sample_dumps_indent2 :: "json \<Rightarrow> str" where
  \<open>sample_dumps_indent2 = (\<lambda>v.
     if v = JObj [(ascii ''error'', JObj [(ascii ''detail'', JStr (ascii ''boom''))])]
     then ascii ''{'' @ [10] @ ascii ''  "error": {'' @ [10] @ ascii ''    "detail": "boom"''
          @ [10] @ ascii ''  }'' @ [10] @ ascii ''}''
     else [])\<close>

definition sample_runtime :: runtime where
  "sample_runtime =
     \<lparr>int_max_str_digits = 4300, unicode_decimal = (\<lambda>c. None),
      json_loads = sample_loads, json_dumps = sample_dumps,
      json_dumps_indent2 = sample_dumps_indent2, float_repr = (\<lambda>x. [])\<rparr>"

text \<open>A request for project 11237 whose extra fields carry a \<open>projectId\<close> of their own.\<close>

definition sample_request :: WrenRequest where
  "sample_request =
     \<lparr>project_id = Some (ascii ''11237''), req_text = Some (ascii ''hi''),
      additional_payload =
        [(ascii ''projectId'', JStr (ascii ''x'')), (ascii ''lang'', JStr (ascii ''en''))]\<rparr>"

definition blank_request :: WrenRequest where
  "blank_request = \<lparr>project_id = Some (ascii ''  ''), req_text = Some (ascii ''hi''),
                    additional_payload = []\<rparr>"

definition word_request :: WrenRequest where
  "word_request = \<lparr>project_id = Some (ascii ''abc''), req_text = None,
                   additional_payload = []\<rparr>"

definition negative_request :: WrenRequest where
  "negative_request = \<lparr>project_id = Some (ascii ''-5''), req_text = Some (ascii ''hi''),
                       additional_payload = []\<rparr>"

definition post_request :: Request where
  "post_request = \<lparr>http_method = ascii ''POST''\<rparr>"

text \<open>Upstream answers: an empty JSON object, no content, and a validation failure.\<close>

definition ok_response :: response where
  "ok_response = \<lparr>status_code = 200, content = ''{}'', resp_text = ascii ''{}'',
                  resp_json = Inr (JObj [])\<rparr>"

definition ok_client :: "client_call \<Rightarrow> outcome" where
  "ok_client = (\<lambda>call. Returned ok_response)"

definition no_content_response :: response where
  "no_content_response = \<lparr>status_code = 204, content = [], resp_text = [],
                          resp_json = Inl (ascii ''Expecting value: line 1 column 1 (char 0)'')\<rparr>"

definition unprocessable_response :: response where
  \<open>unprocessable_response =
     \<lparr>status_code = 422, content = ''{"detail": {"code": 7}}'',
      resp_text = ascii ''{"detail": {"code": 7}}'',
      resp_json = Inr (JObj [(ascii ''detail'', JObj [(ascii ''code'', JInt 7)])])\<rparr>\<close>

definition status_response :: "int \<Rightarrow> response" where
  "status_response code = \<lparr>status_code = code, content = ''no'', resp_text = ascii ''no'',
                           resp_json = Inl (ascii ''Expecting value: line 1 column 1 (char 0)'')\<rparr>"

text \<open>Upstream streams: a failure with a JSON body, and three chunks that end normally.\<close>

definition boom_stream :: stream_response where
  \<open>boom_stream = \<lparr>stream_status = 500, stream_chunks = [''{"detail":"boom"}''],
                   stream_fault = None, stream_text = ascii ''{"detail":"boom"}''\<rparr>\<close>

definition three_chunk_stream :: stream_response where
  "three_chunk_stream = \<lparr>stream_status = 200, stream_chunks = [''data: a'', ''data: b'', ''data: c''],
                         stream_fault = None, stream_text = []\<rparr>"

text \<open>An upstream failure whose body is not JSON and holds a double quote.\<close>

definition quote_stream :: stream_response where
  \<open>quote_stream = \<lparr>stream_status = 500, stream_chunks = [''a"b''],
                    stream_fault = None, stream_text = ascii ''a"b''\<rparr>\<close>

definition quote_stream_client :: "client_call \<Rightarrow> stream_outcome" where
  "quote_stream_client = (\<lambda>call. StreamOpened quote_stream)"

definition three_chunk_client :: "client_call \<Rightarrow> stream_outcome" where
  "three_chunk_client = (\<lambda>call. StreamOpened three_chunk_stream)"

lemmas sample_simps =
  sample_runtime_def sample_request_def blank_request_def word_request_def
  negative_request_def post_request_def ascii_def strip_def py_isspace_def int_space_def
  py_int_def digit_value_def

section \<open>Auxiliary facts\<close>

lemma map_of_dict_set: "map_of (dict_set k v d) = (map_of d)(k \<mapsto> v)"
  by (induction d) auto

lemma map_of_dict_unpack: "map_of (dict_unpack d e) = map_of d ++ map_of (rev e)"
unfolding dict_unpack_def
proof (induction e arbitrary: d)
  case Nil
  show ?case by simp
next
  case (Cons x e)
  obtain k v where x: "x = (k, v)" by (cases x)
  have "map_of (fold (\<lambda>(k, v). dict_set k v) (x # e) d) = map_of (dict_set k v d) ++ map_of (rev e)"
    using Cons.IH [of "dict_set k v d"] x by simp
  also have "\<dots> = map_of d ++ map_of (rev (x # e))"
    by (simp add: x map_of_dict_set map_add_upd_left fun_eq_iff map_add_def split: option.splits)
  finally show ?case .
qed

lemma map_of_rev_distinct: "distinct (map fst e) \<Longrightarrow> map_of (rev e) = map_of e"
  by (rule map_of_inject_set[THEN iffD2]) (auto simp: rev_map[symmetric])

lemma py_int_empty: "py_int rt [] = None"
  by (simp add: py_int_def)

section \<open>The payload\<close>

text \<open>
  C1. When the project identifier parses as an integer \<open>n\<close>, both relays go on with the
  same payload: the unary relay passes it to the upstream client, the streaming relay
  to its generator. Read as a map, the payload is \<open>{question: text, text: text}\<close>
  overridden by the extra fields, and then \<open>projectId\<close> set to \<open>n\<close>: the key wins over a
  \<open>projectId\<close> among the extra fields. (The extra fields are a dict, so their keys are
  distinct.)
\<close>

theorem payload_merge_then_override:
  assumes "project_id rd = Some pid"
    and "py_int rt (strip pid) = Some n"
    and "distinct (map fst (additional_payload rd))"
  shows "\<exists>payload.
           handle_wren_query rt client request endpoint_path (Some rd) wren_api_key
             = async_wren_call rt client (http_method request)
                 (WREN_BASE_URL @ ascii ''/'' @ endpoint_path) (Some payload) (strip wren_api_key)
         \<and> handle_wren_streaming_query rt endpoint_path (Some rd) wren_api_key
             = Inr \<lparr>sr_status_code = 200, media_type = ascii ''text/event-stream'',
                    body_iterator = Stream_wren_response
                      (WREN_BASE_URL @ ascii ''/'' @ endpoint_path) payload (strip wren_api_key)\<rparr>
         \<and> map_of payload
             = ([ascii ''question'' \<mapsto> json_of_text (req_text rd),
                 ascii ''text'' \<mapsto> json_of_text (req_text rd)]
                ++ map_of (additional_payload rd))
               (ascii ''projectId'' \<mapsto> JInt n)"
proof -
  have "strip pid \<noteq> []"
    using assms(2) py_int_empty [of rt] by (cases "strip pid = []") simp_all
  then have ne: "pid \<noteq> []" "strip pid \<noteq> []"
    by (auto simp: strip_def)
  let ?p = "dict_set (ascii ''projectId'') (JInt n)
              (dict_unpack
                 (dict_set (ascii ''text'') (json_of_text (req_text rd))
                    (dict_set (ascii ''question'') (json_of_text (req_text rd)) []))
                 (additional_payload rd))"
  have "map_of ?p = ([ascii ''question'' \<mapsto> json_of_text (req_text rd),
                 ascii ''text'' \<mapsto> json_of_text (req_text rd)]
                ++ map_of (additional_payload rd))
               (ascii ''projectId'' \<mapsto> JInt n)"
    by (auto simp add: map_of_dict_set map_of_dict_unpack map_of_rev_distinct [OF assms(3)]
          ascii_def fun_eq_iff map_add_def split: option.splits)
  moreover have "handle_wren_query rt client request endpoint_path (Some rd) wren_api_key
             = async_wren_call rt client (http_method request)
                 (WREN_BASE_URL @ ascii ''/'' @ endpoint_path) (Some ?p) (strip wren_api_key)"
    using assms(1,2) ne by (simp add: handle_wren_query_def)
  moreover have "handle_wren_streaming_query rt endpoint_path (Some rd) wren_api_key
             = Inr \<lparr>sr_status_code = 200, media_type = ascii ''text/event-stream'',
                    body_iterator = Stream_wren_response
                      (WREN_BASE_URL @ ascii ''/'' @ endpoint_path) ?p (strip wren_api_key)\<rparr>"
    using assms(1,2) ne by (simp add: handle_wren_streaming_query_def)
  ultimately show ?thesis by blast
qed

theorem payload_merge_then_override_witness:
  "\<exists>payload.
     handle_wren_query sample_runtime ok_client post_request
         (ascii ''generate_sql'') (Some sample_request) (ascii ''key'')
       = async_wren_call sample_runtime ok_client (ascii ''POST'')
           (ascii ''https://cloud.getwren.ai/api/v1/generate_sql'') (Some payload) (ascii ''key'')
     \<and> map_of payload (ascii ''projectId'') = Some (JInt 11237)
     \<and> map_of payload (ascii ''lang'') = Some (JStr (ascii ''en''))
     \<and> map_of payload (ascii ''question'') = Some (JStr (ascii ''hi''))"
proof -
  have 1: "project_id sample_request = Some (ascii ''11237'')"
    by (simp add: sample_request_def)
  have 2: "py_int sample_runtime (strip (ascii ''11237'')) = Some 11237"
    by (simp add: sample_simps)
  have 3: "distinct (map fst (additional_payload sample_request))"
    by (simp add: sample_simps)
  from payload_merge_then_override [OF 1 2 3, of ok_client post_request
      "ascii ''generate_sql''" "ascii ''key''"]
  obtain payload where
    "handle_wren_query sample_runtime ok_client post_request
         (ascii ''generate_sql'') (Some sample_request) (ascii ''key'')
       = async_wren_call sample_runtime ok_client (http_method post_request)
           (WREN_BASE_URL @ ascii ''/'' @ ascii ''generate_sql'') (Some payload) (strip (ascii ''key''))"
    and "map_of payload
             = ([ascii ''question'' \<mapsto> json_of_text (req_text sample_request),
                 ascii ''text'' \<mapsto> json_of_text (req_text sample_request)]
                ++ map_of (additional_payload sample_request))
               (ascii ''projectId'' \<mapsto> JInt 11237)"
    by auto
  then show ?thesis
    by (intro exI [of _ payload])
       (simp add: sample_simps WREN_BASE_URL_def json_of_text_def)
qed

section \<open>Validation\<close>

text \<open>
  C4. A request whose \<open>project_id\<close> is missing or blank is rejected by both relays with
  status 400 and the detail "project_id is required in the request body."; one whose
  \<open>project_id\<close> is not blank and does not parse as an integer is rejected by both with
  status 400 and the detail "project_id must be a valid integer.". In both cases the
  unary relay has made no call on the client, and the streaming relay has built no
  response whose body could make one.
\<close>

theorem validation_errors_short_circuit:
  "((case project_id rd of None \<Rightarrow> True | Some pid \<Rightarrow> strip pid = []) \<longrightarrow>
      handle_wren_query rt client request endpoint_path (Some rd) wren_api_key
        = (Inl (HTTPException 400 (ascii ''project_id is required in the request body.'')), [])
      \<and> handle_wren_streaming_query rt endpoint_path (Some rd) wren_api_key
        = Inl (HTTPException 400 (ascii ''project_id is required in the request body.'')))
   \<and> ((case project_id rd of None \<Rightarrow> False
        | Some pid \<Rightarrow> strip pid \<noteq> [] \<and> py_int rt (strip pid) = None) \<longrightarrow>
      handle_wren_query rt client request endpoint_path (Some rd) wren_api_key
        = (Inl (HTTPException 400 (ascii ''project_id must be a valid integer.'')), [])
      \<and> handle_wren_streaming_query rt endpoint_path (Some rd) wren_api_key
        = Inl (HTTPException 400 (ascii ''project_id must be a valid integer.'')))"
  by (cases "project_id rd")
     (auto simp add: handle_wren_query_def handle_wren_streaming_query_def strip_def)

theorem validation_errors_short_circuit_witness:
  "handle_wren_query sample_runtime ok_client post_request (ascii ''generate_sql'')
       (Some blank_request) (ascii ''key'')
     = (Inl (HTTPException 400 (ascii ''project_id is required in the request body.'')), [])
   \<and> handle_wren_streaming_query sample_runtime (ascii ''generate_sql'') (Some blank_request)
       (ascii ''key'')
     = Inl (HTTPException 400 (ascii ''project_id is required in the request body.''))
   \<and> handle_wren_query sample_runtime ok_client post_request (ascii ''generate_sql'')
       (Some word_request) (ascii ''key'')
     = (Inl (HTTPException 400 (ascii ''project_id must be a valid integer.'')), [])
   \<and> handle_wren_streaming_query sample_runtime (ascii ''generate_sql'') (Some word_request)
       (ascii ''key'')
     = Inl (HTTPException 400 (ascii ''project_id must be a valid integer.''))"
proof -
  have blank: "(case project_id blank_request of None \<Rightarrow> True | Some pid \<Rightarrow> strip pid = [])"
    by (simp add: sample_simps)
  have word: "(case project_id word_request of None \<Rightarrow> False
               | Some pid \<Rightarrow> strip pid \<noteq> [] \<and> py_int sample_runtime (strip pid) = None)"
    by (simp add: sample_simps)
  show ?thesis
    using blank word
      validation_errors_short_circuit [where rd = blank_request and rt = sample_runtime
        and client = ok_client and request = post_request
        and endpoint_path = "ascii ''generate_sql''" and wren_api_key = "ascii ''key''"]
      validation_errors_short_circuit [where rd = word_request and rt = sample_runtime
        and client = ok_client and request = post_request
        and endpoint_path = "ascii ''generate_sql''" and wren_api_key = "ascii ''key''"]
    by blast
qed

text \<open>
  The identifier \<open>-5\<close> is not convertible to a positive integer, and yet the unary relay
  accepts it and posts a payload with \<open>projectId\<close> \<open>-5\<close> upstream: the relay asks for an
  integer, not for a positive one.
\<close>

theorem negative_project_id_is_forwarded:
  "py_int sample_runtime (strip (ascii ''-5'')) = Some (- 5)
   \<and> handle_wren_query sample_runtime ok_client post_request (ascii ''generate_sql'')
         (Some negative_request) (ascii ''key'')
       = (Inr (JObj []),
          [\<lparr>fn = ascii ''post'', args = [ascii ''https://cloud.getwren.ai/api/v1/generate_sql''],
            headers = [(ascii ''Authorization'', ascii ''Bearer key''),
                       (ascii ''Content-Type'', ascii ''application/json'')],
            json_kw = Some [(ascii ''question'', JStr (ascii ''hi'')),
                            (ascii ''text'', JStr (ascii ''hi'')),
                            (ascii ''projectId'', JInt (- 5))],
            timeout_s = 30\<rparr>])"
  by (simp add: handle_wren_query_def async_wren_call_def sample_simps ok_client_def
        ok_response_def is_success_def WREN_BASE_URL_def json_of_text_def dict_unpack_def
        py_lower_def py_upper_def)

text \<open>
  C5, as the code has it. The project identifier must be a string that, stripped,
  converts to an integer, of either sign or zero. A request whose identifier is absent,
  blank or not convertible to an integer is rejected by both relays with status 400, one
  of the two validation details, and no client call. A request whose identifier converts
  to \<open>n\<close> is forwarded with a payload whose \<open>projectId\<close> is \<open>n\<close>: the unary relay hands
  it to the upstream client, which for the POST the route delivers makes the one call
  \<open>client.post(url, headers, json=payload)\<close>; the streaming relay returns the 200
  \<open>text/event-stream\<close> response whose generator, once run, makes the one call
  \<open>client.stream("POST", url, headers, json=payload)\<close>.
\<close>

theorem project_id_must_convert_to_an_integer:
  "(Option.bind (project_id rd) (\<lambda>pid. py_int rt (strip pid)) = None \<longrightarrow>
      (\<exists>detail.
         (detail = ascii ''project_id is required in the request body.''
          \<or> detail = ascii ''project_id must be a valid integer.'')
         \<and> handle_wren_query rt client request endpoint_path (Some rd) wren_api_key
           = (Inl (HTTPException 400 detail), [])
         \<and> handle_wren_streaming_query rt endpoint_path (Some rd) wren_api_key
           = Inl (HTTPException 400 detail)))
   \<and> (Option.bind (project_id rd) (\<lambda>pid. py_int rt (strip pid)) = Some n \<longrightarrow>
      (\<exists>payload.
         map_of payload (ascii ''projectId'') = Some (JInt n)
         \<and> handle_wren_query rt client request endpoint_path (Some rd) wren_api_key
           = async_wren_call rt client (http_method request)
               (WREN_BASE_URL @ ascii ''/'' @ endpoint_path) (Some payload) (strip wren_api_key)
         \<and> (http_method request = ascii ''POST'' \<longrightarrow>
              snd (handle_wren_query rt client request endpoint_path (Some rd) wren_api_key)
                = [\<lparr>fn = ascii ''post'', args = [WREN_BASE_URL @ ascii ''/'' @ endpoint_path],
                    headers = [(ascii ''Authorization'', ascii ''Bearer '' @ strip wren_api_key),
                               (ascii ''Content-Type'', ascii ''application/json'')],
                    json_kw = Some payload, timeout_s = 30\<rparr>])
         \<and> handle_wren_streaming_query rt endpoint_path (Some rd) wren_api_key
           = Inr \<lparr>sr_status_code = 200, media_type = ascii ''text/event-stream'',
                  body_iterator = Stream_wren_response
                    (WREN_BASE_URL @ ascii ''/'' @ endpoint_path) payload (strip wren_api_key)\<rparr>
         \<and> snd (run_body rt stream_client
                  \<lparr>sr_status_code = 200, media_type = ascii ''text/event-stream'',
                   body_iterator = Stream_wren_response
                     (WREN_BASE_URL @ ascii ''/'' @ endpoint_path) payload (strip wren_api_key)\<rparr>)
           = [\<lparr>fn = ascii ''stream'',
               args = [ascii ''POST'', WREN_BASE_URL @ ascii ''/'' @ endpoint_path],
               headers = [(ascii ''Authorization'', ascii ''Bearer '' @ strip wren_api_key),
                          (ascii ''Content-Type'', ascii ''application/json'')],
               json_kw = Some payload, timeout_s = 300\<rparr>]))"
proof (cases "project_id rd")
  case None
  then show ?thesis
    by (simp add: handle_wren_query_def handle_wren_streaming_query_def)
next
  case (Some pid)
  show ?thesis
  proof (cases "strip pid = []")
    case True
    then show ?thesis using Some py_int_empty [of rt]
      by (simp add: handle_wren_query_def handle_wren_streaming_query_def)
  next
    case False
    then have ne: "pid \<noteq> []" by (auto simp: strip_def)
    show ?thesis
    proof (cases "py_int rt (strip pid)")
      case None
      then show ?thesis using Some False ne
        by (simp add: handle_wren_query_def handle_wren_streaming_query_def)
    next
      case (Some m)
      let ?p = "dict_set (ascii ''projectId'') (JInt m)
                  (dict_unpack
                     (dict_set (ascii ''text'') (json_of_text (req_text rd))
                        (dict_set (ascii ''question'') (json_of_text (req_text rd)) []))
                     (additional_payload rd))"
      have lower: "py_lower (ascii ''POST'') = ascii ''post''"
        by (simp add: py_lower_def ascii_def)
      have upper: "py_upper (ascii ''POST'') = ascii ''POST''"
        by (simp add: py_upper_def ascii_def)
      have key: "map_of ?p (ascii ''projectId'') = Some (JInt m)"
        by (simp add: map_of_dict_set)
      have unary: "handle_wren_query rt client request endpoint_path (Some rd) wren_api_key
           = async_wren_call rt client (http_method request)
               (WREN_BASE_URL @ ascii ''/'' @ endpoint_path) (Some ?p) (strip wren_api_key)"
        using Some \<open>project_id rd = Some pid\<close> False ne by (simp add: handle_wren_query_def)
      have calls: "http_method request = ascii ''POST'' \<longrightarrow>
              snd (handle_wren_query rt client request endpoint_path (Some rd) wren_api_key)
                = [\<lparr>fn = ascii ''post'', args = [WREN_BASE_URL @ ascii ''/'' @ endpoint_path],
                    headers = [(ascii ''Authorization'', ascii ''Bearer '' @ strip wren_api_key),
                               (ascii ''Content-Type'', ascii ''application/json'')],
                    json_kw = Some ?p, timeout_s = 30\<rparr>]"
        unfolding unary by (simp add: async_wren_call_def Let_def lower upper)
      have streaming: "handle_wren_streaming_query rt endpoint_path (Some rd) wren_api_key
           = Inr \<lparr>sr_status_code = 200, media_type = ascii ''text/event-stream'',
                  body_iterator = Stream_wren_response
                    (WREN_BASE_URL @ ascii ''/'' @ endpoint_path) ?p (strip wren_api_key)\<rparr>"
        using Some \<open>project_id rd = Some pid\<close> False ne
        by (simp add: handle_wren_streaming_query_def)
      have posted: "snd (run_body rt stream_client
                  \<lparr>sr_status_code = 200, media_type = ascii ''text/event-stream'',
                   body_iterator = Stream_wren_response
                     (WREN_BASE_URL @ ascii ''/'' @ endpoint_path) ?p (strip wren_api_key)\<rparr>)
           = [\<lparr>fn = ascii ''stream'',
               args = [ascii ''POST'', WREN_BASE_URL @ ascii ''/'' @ endpoint_path],
               headers = [(ascii ''Authorization'', ascii ''Bearer '' @ strip wren_api_key),
                          (ascii ''Content-Type'', ascii ''application/json'')],
               json_kw = Some ?p, timeout_s = 300\<rparr>]"
        by (simp add: run_body_def stream_wren_response_def Let_def)
      have "Option.bind (project_id rd) (\<lambda>pid. py_int rt (strip pid)) = Some m"
        using Some \<open>project_id rd = Some pid\<close> by simp
      then show ?thesis
        using key unary calls streaming posted by auto
    qed
  qed
qed

theorem project_id_must_convert_to_an_integer_witness:
  "(\<exists>detail.
      (detail = ascii ''project_id is required in the request body.''
       \<or> detail = ascii ''project_id must be a valid integer.'')
      \<and> handle_wren_query sample_runtime ok_client post_request (ascii ''generate_sql'')
          (Some word_request) (ascii ''key'')
        = (Inl (HTTPException 400 detail), [])
      \<and> handle_wren_streaming_query sample_runtime (ascii ''generate_sql'') (Some word_request)
          (ascii ''key'')
        = Inl (HTTPException 400 detail))
   \<and> (\<exists>payload.
        map_of payload (ascii ''projectId'') = Some (JInt (- 5))
        \<and> snd (handle_wren_query sample_runtime ok_client post_request (ascii ''generate_sql'')
                 (Some negative_request) (ascii ''key''))
          = [\<lparr>fn = ascii ''post'', args = [WREN_BASE_URL @ ascii ''/'' @ ascii ''generate_sql''],
              headers = [(ascii ''Authorization'', ascii ''Bearer '' @ strip (ascii ''key'')),
                         (ascii ''Content-Type'', ascii ''application/json'')],
              json_kw = Some payload, timeout_s = 30\<rparr>]
        \<and> snd (run_body sample_runtime three_chunk_client
                 \<lparr>sr_status_code = 200, media_type = ascii ''text/event-stream'',
                  body_iterator = Stream_wren_response
                    (WREN_BASE_URL @ ascii ''/'' @ ascii ''generate_sql'') payload
                    (strip (ascii ''key''))\<rparr>)
          = [\<lparr>fn = ascii ''stream'',
              args = [ascii ''POST'', WREN_BASE_URL @ ascii ''/'' @ ascii ''generate_sql''],
              headers = [(ascii ''Authorization'', ascii ''Bearer '' @ strip (ascii ''key'')),
                         (ascii ''Content-Type'', ascii ''application/json'')],
              json_kw = Some payload, timeout_s = 300\<rparr>])"
proof -
  have word: "Option.bind (project_id word_request) (\<lambda>pid. py_int sample_runtime (strip pid)) = None"
    by (simp add: sample_simps)
  have neg: "Option.bind (project_id negative_request) (\<lambda>pid. py_int sample_runtime (strip pid))
               = Some (- 5)"
    by (simp add: sample_simps)
  have post: "http_method post_request = ascii ''POST''"
    by (simp add: post_request_def)
  show ?thesis
    using word neg post
      project_id_must_convert_to_an_integer [where rd = word_request and rt = sample_runtime
        and client = ok_client and request = post_request
        and endpoint_path = "ascii ''generate_sql''" and wren_api_key = "ascii ''key''"]
      project_id_must_convert_to_an_integer [where rd = negative_request and rt = sample_runtime
        and client = ok_client and request = post_request and n = "- 5"
        and stream_client = three_chunk_client
        and endpoint_path = "ascii ''generate_sql''" and wren_api_key = "ascii ''key''"]
    by blast
qed

text \<open>
  C9. The streaming relay normalises as the unary relay does. Whatever error the
  streaming relay raises before it builds its response, the unary relay raises the same
  one without a call on the client; and when the streaming relay builds its response,
  the unary relay does reach the upstream client, with the URL, the payload and the key
  that the streaming relay hands to its generator.
\<close>

theorem relays_normalise_alike:
  "(case handle_wren_streaming_query rt endpoint_path request_data wren_api_key of
      Inl e \<Rightarrow>
        handle_wren_query rt client request endpoint_path request_data wren_api_key = (Inl e, [])
    | Inr sr \<Rightarrow>
        (case body_iterator sr of
           Stream_wren_response wren_full_url wren_payload key \<Rightarrow>
             handle_wren_query rt client request endpoint_path request_data wren_api_key
               = async_wren_call rt client (http_method request) wren_full_url
                   (Some wren_payload) key
             \<and> snd (handle_wren_query rt client request endpoint_path request_data wren_api_key)
                 \<noteq> []))"
proof (cases request_data)
  case None
  then show ?thesis by (simp add: handle_wren_query_def handle_wren_streaming_query_def)
next
  case (Some rd)
  show ?thesis
  proof (cases "project_id rd")
    case None
    then show ?thesis using Some
      by (simp add: handle_wren_query_def handle_wren_streaming_query_def)
  next
    case (Some pid)
    then show ?thesis using \<open>request_data = Some rd\<close>
      by (cases "py_int rt (strip pid)")
         (simp_all add: handle_wren_query_def handle_wren_streaming_query_def
            async_wren_call_def Let_def)
  qed
qed

text \<open>
  C10. With no request body the handlers receive \<open>None\<close> for \<open>request_data\<close>, and reading
  \<open>request_data.project_id\<close> raises an \<open>AttributeError\<close> that neither handler catches: the
  framework answers 500, not the 400 of the validation, and no call goes upstream.
\<close>

theorem missing_body_is_internal_fault:
  "handle_wren_query rt client request endpoint_path None wren_api_key = (Inl AttributeError, [])
   \<and> handle_wren_streaming_query rt endpoint_path None wren_api_key = Inl AttributeError
   \<and> response_status (fst (handle_wren_query rt client request endpoint_path None wren_api_key))
       = 500
   \<and> response_status (handle_wren_streaming_query rt endpoint_path None wren_api_key) = 500"
  by (simp add: handle_wren_query_def handle_wren_streaming_query_def response_status_def)

section \<open>The upstream client\<close>

text \<open>
  C3. For every response whose status is not a success (not in 200 to 299), the upstream
  client makes its one call and raises an \<open>HTTPException\<close> with the status of the
  response and the detail "Wren API Request Failed (Method: M, Status: S): " followed by:
  the \<open>detail\<close> field of the JSON body when the body is a JSON object that has one
  (serialised by \<open>json.dumps\<close> when it is an object or an array, by \<open>str\<close> otherwise), and
  the text of the response when the body is not JSON, is not an object, or has no
  \<open>detail\<close>.
\<close>

theorem upstream_failure_message:
  assumes "\<not> is_success (status_code r)"
  shows "async_wren_call rt (\<lambda>call. Returned r) method full_url json_data wren_api_key
           = (Inl (HTTPException (status_code r)
                 (ascii ''Wren API Request Failed (Method: '' @ method @ ascii '', Status: ''
                  @ str_int (status_code r) @ ascii ''): ''
                  @ (case resp_json r of
                       Inl e \<Rightarrow> resp_text r
                     | Inr (JObj error_data) \<Rightarrow>
                         (case map_of error_data (ascii ''detail'') of
                            None \<Rightarrow> resp_text r
                          | Some (JObj kv) \<Rightarrow> json_dumps rt (JObj kv)
                          | Some (JArr xs) \<Rightarrow> json_dumps rt (JArr xs)
                          | Some (JStr s) \<Rightarrow> s
                          | Some (JInt i) \<Rightarrow> str_int i
                          | Some (JBool b) \<Rightarrow> (if b then ascii ''True'' else ascii ''False'')
                          | Some JNull \<Rightarrow> ascii ''None''
                          | Some (JFloat x) \<Rightarrow> float_repr rt x)
                     | Inr other \<Rightarrow> resp_text r))),
              [\<lparr>fn = py_lower method, args = [full_url],
                headers = [(ascii ''Authorization'', ascii ''Bearer '' @ wren_api_key),
                           (ascii ''Content-Type'', ascii ''application/json'')],
                json_kw = (if py_upper method \<in> {ascii ''POST'', ascii ''PUT'', ascii ''PATCH''}
                           then json_data else None),
                timeout_s = 30\<rparr>])"
  using assms
  by (simp add: async_wren_call_def Let_def dict_get_def display_detail_def
           split: sum.splits json.splits option.splits)

theorem upstream_failure_message_witness:
  \<open>async_wren_call sample_runtime (\<lambda>call. Returned unprocessable_response) (ascii ''POST'')
       (ascii ''https://cloud.getwren.ai/api/v1/generate_sql'') None (ascii ''key'')
     = (Inl (HTTPException 422
               (ascii ''Wren API Request Failed (Method: POST, Status: 422): {"code": 7}'')),
        [\<lparr>fn = ascii ''post'', args = [ascii ''https://cloud.getwren.ai/api/v1/generate_sql''],
          headers = [(ascii ''Authorization'', ascii ''Bearer key''),
                     (ascii ''Content-Type'', ascii ''application/json'')],
          json_kw = None, timeout_s = 30\<rparr>])\<close>
proof -
  have ns: "\<not> is_success (status_code unprocessable_response)"
    by (simp add: is_success_def unprocessable_response_def)
  show ?thesis
    using upstream_failure_message [OF ns, of sample_runtime "ascii ''POST''"
        "ascii ''https://cloud.getwren.ai/api/v1/generate_sql''" None "ascii ''key''"]
    by (simp add: unprocessable_response_def sample_runtime_def sample_dumps_def ascii_def
          str_int_def str_nat.simps py_lower_def py_upper_def)
qed

text \<open>
  C8. For every successful response with status 204 or with empty content, the upstream
  client returns \<open>{"message": "Operation successful, no content returned."}\<close>, whatever
  \<open>response.json()\<close> would give.
\<close>

theorem no_content_sentinel:
  assumes "is_success (status_code r)"
    and "status_code r = 204 \<or> content r = []"
  shows "fst (async_wren_call rt (\<lambda>call. Returned r) method full_url json_data wren_api_key)
           = Inr (JObj [(ascii ''message'',
                         JStr (ascii ''Operation successful, no content returned.''))])"
  using assms by (auto simp add: async_wren_call_def no_content_body_def Let_def)

theorem no_content_sentinel_witness:
  "fst (async_wren_call sample_runtime (\<lambda>call. Returned no_content_response) (ascii ''POST'')
         (ascii ''https://cloud.getwren.ai/api/v1/generate_sql'') None (ascii ''key''))
     = Inr (JObj [(ascii ''message'',
                   JStr (ascii ''Operation successful, no content returned.''))])"
proof -
  have 1: "is_success (status_code no_content_response)"
    by (simp add: no_content_response_def is_success_def)
  have 2: "status_code no_content_response = 204 \<or> content no_content_response = []"
    by (simp add: no_content_response_def)
  show ?thesis
    using no_content_sentinel [OF 1 2] .
qed

section \<open>The key and project validator\<close>

text \<open>
  C7. The validator maps a 401 from upstream to a 401 with the invalid-key detail, a 403
  to a 403 with the access-denied detail, a 404 to a 404 with the project-not-found
  detail, and any other status outside 200 to 299 to the same status with the text of
  the response after a fixed prefix; on a success whose body is JSON it returns the
  parsed body as it is.
\<close>

theorem validator_status_mapping:
  "(status_code r = 401 \<longrightarrow>
      fst (validate_api_key_and_project (\<lambda>call. Returned r) wren_api_key pid)
        = Inl (HTTPException 401 key_invalid_detail))
   \<and> (status_code r = 403 \<longrightarrow>
      fst (validate_api_key_and_project (\<lambda>call. Returned r) wren_api_key pid)
        = Inl (HTTPException 403 access_denied_detail))
   \<and> (status_code r = 404 \<longrightarrow>
      fst (validate_api_key_and_project (\<lambda>call. Returned r) wren_api_key pid)
        = Inl (HTTPException 404 project_not_found_detail))
   \<and> (\<not> is_success (status_code r) \<and> status_code r \<notin> {401, 403, 404} \<longrightarrow>
      fst (validate_api_key_and_project (\<lambda>call. Returned r) wren_api_key pid)
        = Inl (HTTPException (status_code r) (request_failed_prefix @ resp_text r)))
   \<and> (is_success (status_code r) \<and> resp_json r = Inr body \<longrightarrow>
      fst (validate_api_key_and_project (\<lambda>call. Returned r) wren_api_key pid) = Inr body)"
  by (simp add: validate_api_key_and_project_def Let_def is_success_def)

theorem validator_status_mapping_witness:
  "fst (validate_api_key_and_project (\<lambda>call. Returned (status_response 401)) (ascii ''key'')
          (ascii ''11237'')) = Inl (HTTPException 401 key_invalid_detail)
   \<and> fst (validate_api_key_and_project (\<lambda>call. Returned (status_response 403)) (ascii ''key'')
          (ascii ''11237'')) = Inl (HTTPException 403 access_denied_detail)
   \<and> fst (validate_api_key_and_project (\<lambda>call. Returned (status_response 404)) (ascii ''key'')
          (ascii ''11237'')) = Inl (HTTPException 404 project_not_found_detail)
   \<and> fst (validate_api_key_and_project (\<lambda>call. Returned (status_response 502)) (ascii ''key'')
          (ascii ''11237'')) = Inl (HTTPException 502 (request_failed_prefix @ ascii ''no''))
   \<and> fst (validate_api_key_and_project (\<lambda>call. Returned ok_response) (ascii ''key'')
          (ascii ''11237'')) = Inr (JObj [])"
proof -
  have 1: "status_code (status_response 401) = 401" "status_code (status_response 403) = 403"
    "status_code (status_response 404) = 404"
    by (simp_all add: status_response_def)
  have 2: "\<not> is_success (status_code (status_response 502))
           \<and> status_code (status_response 502) \<notin> {401, 403, 404}"
    "resp_text (status_response 502) = ascii ''no''" "status_code (status_response 502) = 502"
    by (simp_all add: status_response_def is_success_def)
  have 3: "is_success (status_code ok_response) \<and> resp_json ok_response = Inr (JObj [])"
    by (simp add: ok_response_def is_success_def)
  show ?thesis
    using 1 2 3
      validator_status_mapping [where r = "status_response 401" and wren_api_key = "ascii ''key''"
        and pid = "ascii ''11237''"]
      validator_status_mapping [where r = "status_response 403" and wren_api_key = "ascii ''key''"
        and pid = "ascii ''11237''"]
      validator_status_mapping [where r = "status_response 404" and wren_api_key = "ascii ''key''"
        and pid = "ascii ''11237''"]
      validator_status_mapping [where r = "status_response 502" and wren_api_key = "ascii ''key''"
        and pid = "ascii ''11237''"]
      validator_status_mapping [where r = ok_response and wren_api_key = "ascii ''key''"
        and pid = "ascii ''11237''" and body = "JObj []"]
    by metis
qed

section \<open>The streaming relay\<close>

text \<open>
  What the generator emits on an error status. Take the response the streaming relay
  returns for a request it accepts; it has status 200 and media type
  \<open>text/event-stream\<close>. When upstream answers the stream with a status of 400 or more
  and its body can be read, the body of the relay's response is exactly one chunk, the
  frame \<open>event: error\ndata: <data>\n\n\<close>, and the generator ends normally. Here \<open>data\<close>
  is \<open>json.dumps({"error": parsed}, indent=2)\<close> when the text of the upstream body parses
  as JSON; otherwise it is the text pasted as it is between \<open>{"error": "\<close> and \<open>"}\<close>.
  The frame has to be encodable as UTF-8, which text decoded from bytes and the output
  of \<open>json.dumps\<close> are.
\<close>

lemma error_status_emits_one_event:
  assumes "handle_wren_streaming_query rt endpoint_path request_data wren_api_key = Inr sr"
    and "400 \<le> stream_status r"
    and "stream_fault r = None"
    and \<open>data = (case json_loads rt (stream_text r) of
                   Some parsed \<Rightarrow> json_dumps_indent2 rt (JObj [(ascii ''error'', parsed)])
                 | None \<Rightarrow> ascii ''{"error": "'' @ stream_text r @ ascii ''"}'')\<close>
    and "encode_utf8 (ascii ''event: error'' @ [10] @ ascii ''data: '' @ data @ [10, 10])
           = Some frame"
  shows "sr_status_code sr = 200 \<and> media_type sr = ascii ''text/event-stream''
         \<and> fst (run_body rt (\<lambda>call. StreamOpened r) sr) = ([frame], Closed)"
proof -
  obtain u p k where b: "body_iterator sr = Stream_wren_response u p k"
    by (cases "body_iterator sr")
  have "fst (stream_wren_response rt (\<lambda>call. StreamOpened r) u p k) = ([frame], Closed)"
    using assms(2-5) by (simp add: stream_wren_response_def yield_error_event_def Let_def)
  moreover have "sr_status_code sr = 200 \<and> media_type sr = ascii ''text/event-stream''"
    using assms(1)
    by (auto simp add: handle_wren_streaming_query_def Let_def
           split: option.splits if_splits)
  ultimately show ?thesis using b by (simp add: run_body_def)
qed

text \<open>
  The example of an upstream that answers 500 with the body \<open>{"detail":"boom"}\<close>: the one
  frame carries \<open>{"error": {"detail": "boom"}}\<close>, as \<open>json.dumps\<close> lays it out with
  \<open>indent=2\<close>.
\<close>

lemma boom_error_event:
  \<open>\<exists>sr. handle_wren_streaming_query sample_runtime (ascii ''stream/ask'') (Some sample_request)
             (ascii ''key'') = Inr sr
        \<and> sr_status_code sr = 200 \<and> media_type sr = ascii ''text/event-stream''
        \<and> fst (run_body sample_runtime (\<lambda>call. StreamOpened boom_stream) sr)
            = ([''event: error'' @ [CHR 0x0A] @ ''data: {'' @ [CHR 0x0A]
                @ ''  "error": {'' @ [CHR 0x0A] @ ''    "detail": "boom"'' @ [CHR 0x0A]
                @ ''  }'' @ [CHR 0x0A] @ ''}'' @ [CHR 0x0A, CHR 0x0A]], Closed)\<close>
proof -
  obtain sr where sr: "handle_wren_streaming_query sample_runtime (ascii ''stream/ask'')
      (Some sample_request) (ascii ''key'') = Inr sr"
    by (simp add: handle_wren_streaming_query_def sample_simps)
  have st: "400 \<le> stream_status boom_stream" "stream_fault boom_stream = None"
    by (simp_all add: boom_stream_def)
  have enc: \<open>encode_utf8 (ascii ''event: error'' @ [10] @ ascii ''data: ''
      @ (case json_loads sample_runtime (stream_text boom_stream) of
           Some parsed \<Rightarrow> json_dumps_indent2 sample_runtime (JObj [(ascii ''error'', parsed)])
         | None \<Rightarrow> ascii ''{"error": "'' @ stream_text boom_stream @ ascii ''"}'')
      @ [10, 10])
     = Some (''event: error'' @ [CHR 0x0A] @ ''data: {'' @ [CHR 0x0A]
                @ ''  "error": {'' @ [CHR 0x0A] @ ''    "detail": "boom"'' @ [CHR 0x0A]
                @ ''  }'' @ [CHR 0x0A] @ ''}'' @ [CHR 0x0A, CHR 0x0A])\<close>
    by (simp add: sample_runtime_def sample_loads_def sample_dumps_indent2_def boom_stream_def
          ascii_def encode_utf8_def utf8_char_def char_of_def bit_Suc_0_iff)
  show ?thesis
    using error_status_emits_one_event [OF sr st refl enc] sr by blast
qed

text \<open>
  C2. The single \<open>event: error\<close> frame, the normal end of the stream and the 200
  \<open>text/event-stream\<close> response hold as claimed, and a body that parses as JSON is
  wrapped by \<open>json.dumps\<close> as \<open>{"error": parsed}\<close>. A body that is not JSON is not
  wrapped as a string field: the generator pastes the text between the quotes without
  escaping it, where the branch beside it serialises with \<open>json.dumps\<close>. For an
  upstream that answers 500 with the body \<open>a"b\<close>, which \<open>json.loads\<close> rejects, the frame
  carries \<open>{"error": "a"b"}\<close>: the quote of the body closes the string after \<open>a\<close>, and what
  follows is no JSON object with one string field holding the body (that would be
  \<open>{"error": "a\"b"}\<close>).
\<close>

theorem quoted_error_text_is_pasted_unescaped:
  \<open>json_loads sample_runtime (stream_text quote_stream) = None
   \<and> fst (stream_wren_response sample_runtime quote_stream_client
            (ascii ''https://cloud.getwren.ai/api/v1/stream/ask'')
            [(ascii ''projectId'', JInt 11237)] (ascii ''key''))
       = ([''event: error'' @ [CHR 0x0A] @ ''data: {"error": "a"b"}'' @ [CHR 0x0A, CHR 0x0A]],
          Closed)\<close>
  by (simp add: stream_wren_response_def yield_error_event_def quote_stream_client_def
        quote_stream_def sample_runtime_def sample_loads_def ascii_def encode_utf8_def
        utf8_char_def char_of_def bit_Suc_0_iff)

text \<open>
  C6. When upstream answers the stream with a status below 400 and the body ends
  without a fault, the body of the relay's response is the list of chunks upstream
  sent, in the same order, nothing added and nothing left out, and the generator ends
  normally.
\<close>

theorem stream_forwards_chunks_verbatim:
  assumes "handle_wren_streaming_query rt endpoint_path request_data wren_api_key = Inr sr"
    and "stream_status r < 400"
    and "stream_fault r = None"
  shows "fst (run_body rt (\<lambda>call. StreamOpened r) sr) = (stream_chunks r, Closed)"
  using assms(2,3)
  by (cases "body_iterator sr") (simp add: run_body_def stream_wren_response_def Let_def)

theorem stream_forwards_chunks_verbatim_witness:
  "\<exists>sr. handle_wren_streaming_query sample_runtime (ascii ''stream/ask'') (Some sample_request)
            (ascii ''key'') = Inr sr
        \<and> fst (run_body sample_runtime (\<lambda>call. StreamOpened three_chunk_stream) sr)
            = ([''data: a'', ''data: b'', ''data: c''], Closed)"
proof -
  obtain sr where sr: "handle_wren_streaming_query sample_runtime (ascii ''stream/ask'')
      (Some sample_request) (ascii ''key'') = Inr sr"
    by (simp add: handle_wren_streaming_query_def sample_simps)
  have st: "stream_status three_chunk_stream < 400" "stream_fault three_chunk_stream = None"
    by (simp_all add: three_chunk_stream_def)
  show ?thesis
    using stream_forwards_chunks_verbatim [OF sr st] sr
    by (auto simp add: three_chunk_stream_def)
qed

end
